theory Spec2Isabelle
  imports Complex_Main "HOL-Library.Sublist"
begin

section \<open>CareCompanion frontend: workflow controller and care-plan display\<close>

text \<open>
  A shallow embedding of \<^verbatim>\<open>frontend/src/App.jsx\<close>,
  \<^verbatim>\<open>frontend/src/components/FileUpload.jsx\<close> and
  \<^verbatim>\<open>frontend/src/components/CarePlanDisplay.jsx\<close>.

  React state hooks become the fields of one record that every handler takes and
  returns. A JavaScript \<^verbatim>\<open>null\<close> or \<^verbatim>\<open>undefined\<close> is \<open>None\<close>.
  A thrown \<^verbatim>\<open>TypeError\<close> is the left injection of a sum type.
\<close>

subsection \<open>JavaScript truthiness and the \<^verbatim>\<open>||\<close> operator on strings\<close>

text \<open>A string value is truthy when it is neither absent nor the empty string.\<close>

definition truthy_str :: "string option \<Rightarrow> bool" where
  "truthy_str v = (case v of None \<Rightarrow> False | Some t \<Rightarrow> t \<noteq> [])"

text \<open>\<^verbatim>\<open>a || b\<close>, where \<^verbatim>\<open>b\<close> is a string that is always there.\<close>

definition or_else :: "string option \<Rightarrow> string \<Rightarrow> string" where
  "or_else a b = (case a of None \<Rightarrow> b | Some t \<Rightarrow> if t = [] then b else t)"

subsection \<open>The selected document (a browser \<^verbatim>\<open>File\<close>)\<close>

record js_file =
  file_name :: string
  file_size :: nat
  file_type :: string

subsection \<open>FileUpload.jsx: the two selection gestures\<close>

text \<open>
  Each handler either calls the \<^verbatim>\<open>onFileSelect\<close> property with a file or does
  nothing. The model returns the file handed to \<^verbatim>\<open>onFileSelect\<close>, and \<open>None\<close>
  when the property is not called. The argument is the event's file list;
  \<^verbatim>\<open>files[0]\<close> of an empty list is \<^verbatim>\<open>undefined\<close>.
\<close>

definition handleFileChange :: "js_file list \<Rightarrow> js_file option" where
  "handleFileChange files =
     (case files of [] \<Rightarrow> None | f # _ \<Rightarrow> Some f)"

definition handleDrop :: "js_file list \<Rightarrow> js_file option" where
  "handleDrop files =
     (case files of
        [] \<Rightarrow> None
      | f # _ \<Rightarrow> if prefix ''image/'' (file_type f) then Some f else None)"

subsection \<open>The response payload (the \<^verbatim>\<open>data\<close> property of CarePlanDisplay)\<close>

text \<open>
  Every field of the decoded JSON is optional. A JavaScript number is modelled by the
  rational it denotes (every finite double is one).
\<close>

record medication =
  med_name :: "string option"
  med_dosage :: "string option"
  med_frequency :: "string option"
  med_instructions :: "string option"
  med_quantity :: "rat option"
  med_refills :: "rat option"

record action_item =
  item_title :: "string option"
  item_description :: "string option"
  item_priority :: "string option"
  item_timeframe :: "string option"

record simplified_term =
  term_term :: "string option"
  term_explanation :: "string option"
  term_importance :: "string option"

record cost_saving =
  saving_medication :: "string option"
  monthly_savings :: "rat option"
  generic_available :: "bool option"
  generic_name :: "string option"
  savings_tips :: "string list option"
  discount_programs :: "string list option"

record support_resource =
  resource_name :: "string option"
  resource_description :: "string option"
  resource_url :: "string option"
  resource_phone :: "string option"
  resource_type :: "string option"

record resource_result =
  cost_savings :: "cost_saving list option"
  total_potential_savings :: "rat option"
  support_resources :: "support_resource list option"

record resource_agent =
  agent_result :: "resource_result option"

record agent_results_t =
  resource :: "resource_agent option"

record care_plan_t =
  medications :: "medication list option"
  action_items :: "action_item list option"
  simplified_terms :: "simplified_term list option"
  lifestyle_tips :: "string list option"
  follow_up_instructions :: "string list option"
  emergency_contacts :: "string list option"

record care_plan_result =
  care_plan :: "care_plan_t option"
  agent_results :: "agent_results_t option"
  confidence_score :: "rat option"
  processing_time_seconds :: "rat option"

subsection \<open>The rejection value of \<^verbatim>\<open>axios.post\<close>\<close>

record error_body =
  body_message :: "string option"
  body_detail :: "string option"

record axios_response =
  response_data :: "error_body option"

record axios_error =
  err_response :: "axios_response option"
  err_request :: bool
  err_message :: "string option"

text \<open>The \<^verbatim>\<open>catch\<close> block of \<^verbatim>\<open>handleSubmit\<close>, up to \<^verbatim>\<open>setError\<close>.\<close>

definition errorMessage_of :: "axios_error \<Rightarrow> string" where
  "errorMessage_of err =
     (let errorMessage = ''An error occurred. Please try again.'' in
      case err_response err of
        Some r \<Rightarrow>
          (let errorData = response_data r in
           or_else (Option.bind errorData body_message)
             (or_else (Option.bind errorData body_detail) errorMessage))
      | None \<Rightarrow>
          if err_request err
          then ''Unable to connect to the server. Please check your connection.''
          else or_else (err_message err) errorMessage)"

subsection \<open>App.jsx: state and handlers\<close>

text \<open>
  The five \<^verbatim>\<open>useState\<close> cells, and with them what the browser holds for the
  component: the interval timers that \<^verbatim>\<open>setInterval\<close> created and nobody
  cleared, the pending continuations of \<^verbatim>\<open>await axios.post\<close> (each named by
  the \<^verbatim>\<open>progressInterval\<close> it closes over), and the next timer id.
\<close>

record app_state =
  selectedFile :: "js_file option"
  isLoading :: bool
  result :: "care_plan_result option"
  error :: "string option"
  uploadProgress :: nat
  timers :: "nat list"
  inflight :: "nat list"
  nextTimer :: nat

definition initial :: app_state where
  "initial = \<lparr> selectedFile = None, isLoading = False, result = None, error = None,
     uploadProgress = 0, timers = [], inflight = [], nextTimer = 0 \<rparr>"

definition handleFileSelect :: "js_file \<Rightarrow> app_state \<Rightarrow> app_state" where
  "handleFileSelect f s = s\<lparr> selectedFile := Some f, error := None, result := None \<rparr>"

text \<open>
  \<^verbatim>\<open>handleSubmit\<close> up to the \<^verbatim>\<open>await\<close>: the guard, the four setters, the
  interval and the request.
\<close>

definition handleSubmit :: "app_state \<Rightarrow> app_state" where
  "handleSubmit s =
     (if selectedFile s = None
      then s\<lparr> error := Some ''Please select a file first.'' \<rparr>
      else
        let progressInterval = nextTimer s in
        s\<lparr> result := None, error := None, isLoading := True, uploadProgress := 0,
           timers := timers s @ [progressInterval],
           inflight := inflight s @ [progressInterval],
           nextTimer := Suc progressInterval \<rparr>)"

text \<open>The \<^verbatim>\<open>finally\<close> block.\<close>

definition handleSubmit_finally :: "app_state \<Rightarrow> app_state" where
  "handleSubmit_finally s = s\<lparr> isLoading := False, uploadProgress := 0 \<rparr>"

text \<open>The rest of the \<^verbatim>\<open>try\<close> block, run when the request resolves.\<close>

definition handleSubmit_resolved :: "nat \<Rightarrow> care_plan_result \<Rightarrow> app_state \<Rightarrow> app_state" where
  "handleSubmit_resolved progressInterval payload s =
     handleSubmit_finally
       (s\<lparr> inflight := remove1 progressInterval (inflight s),
           timers := removeAll progressInterval (timers s),
           uploadProgress := 100,
           result := Some payload \<rparr>)"

text \<open>
  The \<^verbatim>\<open>catch\<close> block, run when the request rejects. The constant
  \<^verbatim>\<open>progressInterval\<close> is declared inside \<^verbatim>\<open>try\<close> and
  \<^verbatim>\<open>clearInterval\<close> stands after the \<^verbatim>\<open>await\<close>, so this path does not
  reach it.
\<close>

definition handleSubmit_rejected :: "nat \<Rightarrow> axios_error \<Rightarrow> app_state \<Rightarrow> app_state" where
  "handleSubmit_rejected progressInterval err s =
     handleSubmit_finally
       (s\<lparr> inflight := remove1 progressInterval (inflight s),
           error := Some (errorMessage_of err) \<rparr>)"

text \<open>The interval callback: \<^verbatim>\<open>setUploadProgress(prev => Math.min(prev + 10, 90))\<close>.\<close>

definition tick :: "app_state \<Rightarrow> app_state" where
  "tick s = s\<lparr> uploadProgress := min (uploadProgress s + 10) 90 \<rparr>"

definition handleReset :: "app_state \<Rightarrow> app_state" where
  "handleReset s = s\<lparr> selectedFile := None, result := None, error := None, uploadProgress := 0 \<rparr>"

subsection \<open>What the rendered page lets happen\<close>

text \<open>
  One constructor for each event that the page of \<^verbatim>\<open>App.jsx\<close> can receive:
  the two file gestures of FileUpload, the Analyze button, the two buttons of
  ErrorMessage, the button of CarePlanDisplay, the remove button of FileUpload, the
  settlement of a pending request, and the firing of an interval.
\<close>

datatype gesture =
    ChangeFile "js_file list"
  | DropFile "js_file list"
  | ClickAnalyze
  | ClickTryAgain
  | ClickStartOver
  | ClickProcessAnother
  | ClickRemoveFile
  | Resolve nat care_plan_result
  | Reject nat axios_error
  | Tick nat

text \<open>
  \<open>fire g s\<close> is \<open>None\<close> when the element that would receive \<open>g\<close> is not rendered
  or is disabled in state \<open>s\<close>: the Analyze button carries
  \<^verbatim>\<open>disabled={!selectedFile || isLoading}\<close>, ErrorMessage is rendered under
  \<^verbatim>\<open>error &&\<close>, CarePlanDisplay under \<^verbatim>\<open>result &&\<close>, the remove button
  under \<^verbatim>\<open>selectedFile ?\<close>. The drop area and the file input are always
  rendered and take no property that depends on \<^verbatim>\<open>isLoading\<close>.
\<close>

fun fire :: "gesture \<Rightarrow> app_state \<Rightarrow> app_state option" where
  "fire (ChangeFile files) s =
     Some (case handleFileChange files of None \<Rightarrow> s | Some f \<Rightarrow> handleFileSelect f s)"
| "fire (DropFile files) s =
     Some (case handleDrop files of None \<Rightarrow> s | Some f \<Rightarrow> handleFileSelect f s)"
| "fire ClickAnalyze s =
     (if selectedFile s = None \<or> isLoading s then None else Some (handleSubmit s))"
| "fire ClickTryAgain s =
     (if truthy_str (error s) then Some (handleSubmit s) else None)"
| "fire ClickStartOver s =
     (if truthy_str (error s) then Some (handleReset s) else None)"
| "fire ClickProcessAnother s =
     (if result s \<noteq> None then Some (handleReset s) else None)"
| "fire ClickRemoveFile s =
     (if selectedFile s \<noteq> None then Some (handleReset s) else None)"
| "fire (Resolve t d) s =
     (if t \<in> set (inflight s) then Some (handleSubmit_resolved t d s) else None)"
| "fire (Reject t e) s =
     (if t \<in> set (inflight s) then Some (handleSubmit_rejected t e s) else None)"
| "fire (Tick t) s =
     (if t \<in> set (timers s) then Some (tick s) else None)"

fun run :: "gesture list \<Rightarrow> app_state \<Rightarrow> app_state option" where
  "run [] s = Some s"
| "run (g # gs) s = (case fire g s of None \<Rightarrow> None | Some s' \<Rightarrow> run gs s')"

inductive reachable :: "app_state \<Rightarrow> bool" where
  reachable_initial: "reachable initial"
| reachable_fire: "reachable s \<Longrightarrow> fire g s = Some s' \<Longrightarrow> reachable s'"

subsection \<open>The workflow states of the page\<close>

text \<open>
  The source has no workflow variable: the page shows the spinner under
  \<^verbatim>\<open>isLoading &&\<close>, the care plan under \<^verbatim>\<open>result &&\<close>, the error card
  under \<^verbatim>\<open>error &&\<close> and the file card under \<^verbatim>\<open>selectedFile ?\<close>.
  \<open>workflowState\<close> reads the five workflow states of the design off these cells.
\<close>

datatype workflow = Idle | DocumentSelected | Submitting | Succeeded | Failed

definition workflowState :: "app_state \<Rightarrow> workflow" where
  "workflowState s =
     (if isLoading s then Submitting
      else if result s \<noteq> None then Succeeded
      else if truthy_str (error s) then Failed
      else if selectedFile s \<noteq> None then DocumentSelected
      else Idle)"

datatype event =
    SelectionChanged
  | SubmitNoDocument
  | SubmitWithDocument
  | ResponseSuccess
  | ResponseFailure
  | ResetEvent

text \<open>
  The event of the design that a gesture stands for in a state, \<open>None\<close> for a
  gesture that FileUpload ignores and for a timer tick.
\<close>

fun eventOf :: "gesture \<Rightarrow> app_state \<Rightarrow> event option" where
  "eventOf (ChangeFile files) s = map_option (\<lambda>_. SelectionChanged) (handleFileChange files)"
| "eventOf (DropFile files) s = map_option (\<lambda>_. SelectionChanged) (handleDrop files)"
| "eventOf ClickAnalyze s =
     Some (if selectedFile s = None then SubmitNoDocument else SubmitWithDocument)"
| "eventOf ClickTryAgain s =
     Some (if selectedFile s = None then SubmitNoDocument else SubmitWithDocument)"
| "eventOf ClickStartOver s = Some ResetEvent"
| "eventOf ClickProcessAnother s = Some ResetEvent"
| "eventOf ClickRemoveFile s = Some ResetEvent"
| "eventOf (Resolve t d) s = Some ResponseSuccess"
| "eventOf (Reject t e) s = Some ResponseFailure"
| "eventOf (Tick t) s = None"

text \<open>
  The transition table as the design document words it (its section on the
  submission controller), row by row: from, event, to.
\<close>

definition spec_transition :: "workflow \<Rightarrow> event \<Rightarrow> workflow \<Rightarrow> bool" where
  "spec_transition a e b =
     ((a, e, b) \<in> set
        [(Idle, SelectionChanged, DocumentSelected),
         (Failed, SelectionChanged, DocumentSelected),
         (DocumentSelected, SubmitNoDocument, DocumentSelected),
         (Failed, SubmitNoDocument, Failed),
         (DocumentSelected, SubmitWithDocument, Submitting),
         (Failed, SubmitWithDocument, Submitting),
         (Submitting, ResponseSuccess, Succeeded),
         (Submitting, ResponseFailure, Failed)]
      \<or> (e = ResetEvent \<and> b = Idle))"

text \<open>The rows that the page has and the table lacks.\<close>

definition extra_transition :: "workflow \<Rightarrow> event \<Rightarrow> workflow \<Rightarrow> bool" where
  "extra_transition a e b =
     ((a, e, b) \<in> set
        [(DocumentSelected, SelectionChanged, DocumentSelected),
         (Succeeded, SelectionChanged, DocumentSelected),
         (Submitting, SelectionChanged, Submitting),
         (Succeeded, SubmitWithDocument, Submitting),
         (Submitting, ResetEvent, Submitting)])"

text \<open>
  The failure classification as the design document words it: a structured body with a
  message or detail gives that text; else a request without a response gives the
  connection message; any other failure gives its own message, or the fallback.
\<close>

definition classify_spec :: "axios_error \<Rightarrow> string" where
  "classify_spec err =
     (let body = Option.bind (err_response err) response_data;
          msg = Option.bind body body_message;
          det = Option.bind body body_detail in
      if err_response err \<noteq> None \<and> (truthy_str msg \<or> truthy_str det)
      then or_else msg (or_else det [])
      else if err_request err \<and> err_response err = None
      then ''Unable to connect to the server. Please check your connection.''
      else or_else (err_message err) ''An error occurred. Please try again.'')"

subsection \<open>JavaScript numbers\<close>

text \<open>
  A finite double is the rational it denotes. \<open>to_double\<close> rounds a rational to the
  nearest double, ties to even, as the reading of a decimal literal and every
  arithmetic operation do (magnitudes below \<open>2 ^ 1024\<close>; the subnormal range has
  the fixed spacing \<open>2 ^ - 1074\<close>).
\<close>

definition pow2 :: "int \<Rightarrow> rat" where
  "pow2 e = (if 0 \<le> e then 2 ^ nat e else 1 / 2 ^ nat (- e))"

fun bit_length :: "nat \<Rightarrow> nat" where
  "bit_length n = (if n = 0 then 0 else Suc (bit_length (n div 2)))"

text \<open>The exponent \<open>e\<close> with \<open>2 ^ e \<le> a < 2 ^ (e + 1)\<close>, for positive \<open>a\<close>.\<close>

definition binade :: "rat \<Rightarrow> int" where
  "binade a =
     (if 1 \<le> a then int (bit_length (nat \<lfloor>a\<rfloor>)) - 1
      else - int (bit_length (nat (\<lceil>1 / a\<rceil> - 1))))"

definition round_half_even :: "rat \<Rightarrow> int" where
  "round_half_even x =
     (let f = \<lfloor>x\<rfloor>; d = x - of_int f in
      if d < 1 / 2 then f
      else if 1 / 2 < d then f + 1
      else if even f then f else f + 1)"

definition to_double :: "rat \<Rightarrow> rat" where
  "to_double x =
     (if x = 0 then 0
      else
        let a = \<bar>x\<bar>;
            ulp = pow2 (max (binade a - 52) (- 1074));
            m = round_half_even (a / ulp)
        in sgn x * of_int m * ulp)"

text \<open>The \<^verbatim>\<open>*\<close> operator.\<close>

definition js_times :: "rat \<Rightarrow> rat \<Rightarrow> rat" where
  "js_times x y = to_double (x * y)"

text \<open>\<^verbatim>\<open>x || 0\<close> on a number that may be absent (zero is falsy and gives zero).\<close>

definition or_zero :: "rat option \<Rightarrow> rat" where
  "or_zero v = (case v of None \<Rightarrow> 0 | Some x \<Rightarrow> x)"

text \<open>
  \<^verbatim>\<open>Math.round\<close>: the nearest integer, a tie going to the larger one.
\<close>

definition Math_round :: "rat \<Rightarrow> int" where
  "Math_round x = \<lfloor>x + 1 / 2\<rfloor>"

fun digits_of :: "nat \<Rightarrow> string" where
  "digits_of n =
     (if n < 10 then [''0123456789'' ! n]
      else digits_of (n div 10) @ [''0123456789'' ! (n mod 10)])"

subsection \<open>Rendered output\<close>

text \<open>
  A rendered element keeps its static class name (its tag name when it has none) and
  its children. Other attributes and the pictographs that open the headings are left
  out: none of them is computed by a call that can throw. \<open>Num x\<close> is the number
  \<open>x\<close> as a child, shown by the default conversion of numbers to strings, which is
  not computed here.
\<close>

datatype node = Elem string "node list" | Text string | Num rat

datatype js_error = TypeError

text \<open>\<^verbatim>\<open>{v}\<close> for a string that may be absent: React renders nothing for it.\<close>

definition str_child :: "string option \<Rightarrow> node list" where
  "str_child v = (case v of None \<Rightarrow> [] | Some t \<Rightarrow> [Text t])"

definition num_child :: "rat option \<Rightarrow> node list" where
  "num_child v = (case v of None \<Rightarrow> [] | Some x \<Rightarrow> [Num x])"

text \<open>\<^verbatim>\<open>{f()}\<close> for a section that may be \<^verbatim>\<open>null\<close>.\<close>

definition opt_child :: "node option \<Rightarrow> node list" where
  "opt_child v = (case v of None \<Rightarrow> [] | Some n \<Rightarrow> [n])"

text \<open>
  An integer as a child. Below \<open>10 ^ 21\<close> the conversion to a string gives the
  decimal digits.
\<close>

definition int_child :: "int \<Rightarrow> node" where
  "int_child n =
     (if \<bar>n\<bar> < 10 ^ 21
      then Text ((if n < 0 then ''-'' else []) @ digits_of (nat \<bar>n\<bar>))
      else Num (of_int n))"

text \<open>
  \<^verbatim>\<open>x.toFixed(f)\<close>, after the language standard: the integer \<open>n\<close> nearest
  to \<open>x * 10 ^ f\<close> (the larger of two), its digits padded with zeros to \<open>f + 1\<close>
  places, a point before the last \<open>f\<close>. From \<open>10 ^ 21\<close> on the standard falls
  back to the default conversion.
\<close>

definition toFixed :: "rat \<Rightarrow> nat \<Rightarrow> node" where
  "toFixed x f =
     (if 10 ^ 21 \<le> \<bar>x\<bar> then Num x
      else
        let n = nat \<lfloor>\<bar>x\<bar> * 10 ^ f + 1 / 2\<rfloor>;
            m = digits_of n;
            z = (if length m \<le> f then replicate (f + 1 - length m) (CHR ''0'') @ m else m);
            k = length z
        in Text ((if x < 0 then ''-'' else []) @
                 (if f = 0 then m else take (k - f) z @ ''.'' @ drop (k - f) z)))"

text \<open>
  \<^verbatim>\<open>{v && <element/>}\<close>. A number that is zero is falsy and React renders the
  zero itself; an empty string is falsy and renders as nothing.
\<close>

definition num_and :: "rat option \<Rightarrow> node \<Rightarrow> node list" where
  "num_and v n = (case v of None \<Rightarrow> [] | Some x \<Rightarrow> if x = 0 then [Num 0] else [n])"

definition str_and :: "string option \<Rightarrow> node \<Rightarrow> node list" where
  "str_and v n = (case v of None \<Rightarrow> [] | Some t \<Rightarrow> if t = [] then [] else [n])"

definition bool_and :: "bool option \<Rightarrow> node \<Rightarrow> node list" where
  "bool_and v n = (case v of None \<Rightarrow> [] | Some b \<Rightarrow> if b then [n] else [])"

text \<open>\<^verbatim>\<open>xs.map(f)\<close> where \<^verbatim>\<open>f\<close> may throw: the first throw ends the loop.\<close>

fun mapE :: "('a \<Rightarrow> js_error + 'b) \<Rightarrow> 'a list \<Rightarrow> js_error + 'b list" where
  "mapE f [] = Inr []"
| "mapE f (x # xs) =
     (case f x of
        Inl e \<Rightarrow> Inl e
      | Inr y \<Rightarrow> (case mapE f xs of Inl e \<Rightarrow> Inl e | Inr ys \<Rightarrow> Inr (y # ys)))"

subsection \<open>CarePlanDisplay.jsx: the sections\<close>

text \<open>
  Each function opens with \<^verbatim>\<open>if (!data.a?.b?.length) return null\<close>: the
  section is \<^verbatim>\<open>null\<close> when a link of the chain is absent or the list is
  empty.
\<close>

definition medication_card :: "medication \<Rightarrow> node" where
  "medication_card med =
     Elem ''medication-card''
       [Elem ''medication-header''
          [Elem ''h4'' (str_child (med_name med)),
           Elem ''dosage'' (str_child (med_dosage med))],
        Elem ''medication-details''
          ([Elem ''p'' ([Elem ''strong'' [Text ''Frequency:''], Text '' ''] @ str_child (med_frequency med)),
            Elem ''p'' ([Elem ''strong'' [Text ''Instructions:''], Text '' ''] @ str_child (med_instructions med))]
           @ num_and (med_quantity med)
               (Elem ''p'' ([Elem ''strong'' [Text ''Quantity:''], Text '' '']
                  @ num_child (med_quantity med) @ [Text '' tablets'']))
           @ num_and (med_refills med)
               (Elem ''p'' ([Elem ''strong'' [Text ''Refills:''], Text '' '']
                  @ num_child (med_refills med) @ [Text '' remaining''])))]"

definition renderMedications :: "care_plan_result \<Rightarrow> node option" where
  "renderMedications d =
     (case Option.bind (care_plan d) medications of
        None \<Rightarrow> None
      | Some meds \<Rightarrow>
          if meds = [] then None
          else Some (Elem ''medications-section''
                 (Elem ''h3'' [Text ''Your Medications''] # map medication_card meds)))"

definition action_item_card :: "action_item \<Rightarrow> node" where
  "action_item_card item =
     Elem ''action-item''
       [Elem ''action-item-header''
          [Elem ''h4'' (str_child (item_title item)),
           Elem ''priority-badge'' (str_child (item_priority item))],
        Elem ''action-description'' (str_child (item_description item)),
        Elem ''action-timeframe''
          ([Elem ''strong'' [Text ''When:''], Text '' ''] @ str_child (item_timeframe item))]"

definition renderActionItems :: "care_plan_result \<Rightarrow> node option" where
  "renderActionItems d =
     (case Option.bind (care_plan d) action_items of
        None \<Rightarrow> None
      | Some items \<Rightarrow>
          if items = [] then None
          else Some (Elem ''action-items-section''
                 (Elem ''h3'' [Text ''Your Action Plan''] # map action_item_card items)))"

definition term_card :: "simplified_term \<Rightarrow> node" where
  "term_card t =
     Elem ''term-card''
       [Elem ''h4'' (str_child (term_term t)),
        Elem ''term-explanation'' (str_child (term_explanation t)),
        Elem ''term-importance''
          ([Elem ''strong'' [Text ''Why this matters:''], Text '' ''] @ str_child (term_importance t))]"

definition renderSimplifiedTerms :: "care_plan_result \<Rightarrow> node option" where
  "renderSimplifiedTerms d =
     (case Option.bind (care_plan d) simplified_terms of
        None \<Rightarrow> None
      | Some terms \<Rightarrow>
          if terms = [] then None
          else Some (Elem ''terms-section''
                 (Elem ''h3'' [Text ''Understanding Your Health''] # map term_card terms)))"

definition renderLifestyleTips :: "care_plan_result \<Rightarrow> node option" where
  "renderLifestyleTips d =
     (case Option.bind (care_plan d) lifestyle_tips of
        None \<Rightarrow> None
      | Some tips \<Rightarrow>
          if tips = [] then None
          else Some (Elem ''lifestyle-section''
                 [Elem ''h3'' [Text ''Lifestyle Tips''],
                  Elem ''tips-list'' (map (\<lambda>tip. Elem ''tip-item'' [Text tip]) tips)]))"

definition renderFollowUp :: "care_plan_result \<Rightarrow> node option" where
  "renderFollowUp d =
     (case Option.bind (care_plan d) follow_up_instructions of
        None \<Rightarrow> None
      | Some instructions \<Rightarrow>
          if instructions = [] then None
          else Some (Elem ''followup-section''
                 [Elem ''h3'' [Text ''Follow-up Instructions''],
                  Elem ''followup-list''
                    (map (\<lambda>instruction. Elem ''followup-item'' [Text instruction]) instructions)]))"

definition renderEmergencyContacts :: "care_plan_result \<Rightarrow> node option" where
  "renderEmergencyContacts d =
     (case Option.bind (care_plan d) emergency_contacts of
        None \<Rightarrow> None
      | Some contacts \<Rightarrow>
          if contacts = [] then None
          else Some (Elem ''emergency-section''
                 [Elem ''h3'' [Text ''Emergency Contacts''],
                  Elem ''contacts-list''
                    (map (\<lambda>contact. Elem ''contact-item'' [Text contact]) contacts)]))"

text \<open>\<^verbatim>\<open>data.agent_results?.resource?.result\<close>.\<close>

definition resource_result_of :: "care_plan_result \<Rightarrow> resource_result option" where
  "resource_result_of d = Option.bind (Option.bind (agent_results d) resource) agent_result"

text \<open>
  The line \<^verbatim>\<open>{saving.generic_available && (<p>...Yes - {saving.generic_name}</p>)}\<close>
  of a savings card.
\<close>

definition generic_line :: "cost_saving \<Rightarrow> node list" where
  "generic_line saving =
     bool_and (generic_available saving)
       (Elem ''p'' ([Elem ''strong'' [Text ''Generic Available:''], Text '' Yes - '']
          @ str_child (generic_name saving)))"

text \<open>
  One savings card. \<^verbatim>\<open>saving.savings_tips.map\<close> and
  \<^verbatim>\<open>saving.discount_programs.map\<close> read a property of a value that may be
  absent; JavaScript throws a TypeError there.
\<close>

definition savings_card :: "cost_saving \<Rightarrow> js_error + node" where
  "savings_card saving =
     (case savings_tips saving of
        None \<Rightarrow> Inl TypeError
      | Some tips \<Rightarrow>
         (case discount_programs saving of
            None \<Rightarrow> Inl TypeError
          | Some programs \<Rightarrow>
              Inr (Elem ''savings-card''
                [Elem ''savings-header''
                   [Elem ''h4'' (str_child (saving_medication saving)),
                    Elem ''savings-amount''
                      ([Text ''Save $''] @ num_child (monthly_savings saving) @ [Text ''/month''])],
                 Elem ''savings-details''
                   (generic_line saving @
                    [Elem ''savings-tips''
                       [Elem ''h5'' [Text ''Money-Saving Tips:''],
                        Elem ''ul'' (map (\<lambda>tip. Elem ''li'' [Text tip]) tips)],
                     Elem ''discount-programs''
                       [Elem ''h5'' [Text ''Discount Programs:''],
                        Elem ''program-tags''
                          (map (\<lambda>program. Elem ''program-tag'' [Text program]) programs)]])])))"

definition renderCostSavings :: "care_plan_result \<Rightarrow> js_error + node option" where
  "renderCostSavings d =
     (case Option.bind (resource_result_of d) cost_savings of
        None \<Rightarrow> Inr None
      | Some costSavings \<Rightarrow>
          if costSavings = [] then Inr None
          else
            let totalSavings = or_zero (Option.bind (resource_result_of d) total_potential_savings) in
            case mapE savings_card costSavings of
              Inl e \<Rightarrow> Inl e
            | Inr cards \<Rightarrow>
                Inr (Some (Elem ''cost-savings-section''
                  ([Elem ''h3'' [Text ''Cost Savings Opportunities''],
                    Elem ''savings-summary''
                      [Elem ''savings-total''
                         [Elem ''h4'' [Text ''Potential Annual Savings: $'', toFixed totalSavings 2]]]]
                   @ cards))))"

definition resource_card :: "support_resource \<Rightarrow> node" where
  "resource_card r =
     Elem ''resource-card''
       [Elem ''h4'' (str_child (resource_name r)),
        Elem ''resource-description'' (str_child (resource_description r)),
        Elem ''resource-contact''
          (str_and (resource_url r) (Elem ''resource-link'' [Text ''Visit Website''])
           @ str_and (resource_phone r) (Elem ''resource-phone'' (str_child (resource_phone r)))),
        Elem ''resource-type'' (str_child (resource_type r))]"

definition renderSupportResources :: "care_plan_result \<Rightarrow> node option" where
  "renderSupportResources d =
     (case Option.bind (resource_result_of d) support_resources of
        None \<Rightarrow> None
      | Some resources \<Rightarrow>
          if resources = [] then None
          else Some (Elem ''support-resources-section''
                 [Elem ''h3'' [Text ''Support Resources''],
                  Elem ''resources-grid'' (map resource_card resources)]))"

subsection \<open>CarePlanDisplay.jsx: header and tabs\<close>

definition confidence_score_span :: "care_plan_result \<Rightarrow> node" where
  "confidence_score_span d =
     Elem ''confidence-score''
       [Text ''Confidence: '',
        int_child (Math_round (js_times (or_zero (confidence_score d)) 100)),
        Text ''%'']"

definition processing_time_span :: "care_plan_result \<Rightarrow> node" where
  "processing_time_span d =
     Elem ''processing-time''
       ([Text ''Processed in '']
        @ (case processing_time_seconds d of None \<Rightarrow> [] | Some t \<Rightarrow> [toFixed t 1])
        @ [Text ''s''])"

definition care_plan_header :: "care_plan_result \<Rightarrow> node" where
  "care_plan_header d =
     Elem ''care-plan-header''
       [Elem ''h2'' [Text ''Your Personalized Care Plan''],
        Elem ''plan-meta'' [confidence_score_span d, processing_time_span d],
        Elem ''reset-button'' [Text ''Process Another Document'']]"

text \<open>The values of \<^verbatim>\<open>activeTab\<close>; \<^verbatim>\<open>useState('overview')\<close> starts at the first.\<close>

datatype tab = Overview | MedicationsTab | ActionsTab | EducationTab | ResourcesTab

text \<open>
  The children of \<^verbatim>\<open><div className="tab-content">\<close>: five conditional
  blocks, of which the one for the active tab is rendered. The calls in a block are
  evaluated from first to last.
\<close>

definition tab_content :: "tab \<Rightarrow> care_plan_result \<Rightarrow> js_error + node" where
  "tab_content activeTab d =
     (case activeTab of
        Overview \<Rightarrow>
          Inr (Elem ''overview-tab''
            (opt_child (renderMedications d) @ opt_child (renderActionItems d)
             @ opt_child (renderLifestyleTips d)))
      | MedicationsTab \<Rightarrow>
          Inr (Elem ''medications-tab'' (opt_child (renderMedications d)))
      | ActionsTab \<Rightarrow>
          Inr (Elem ''actions-tab''
            (opt_child (renderActionItems d) @ opt_child (renderFollowUp d)
             @ opt_child (renderEmergencyContacts d)))
      | EducationTab \<Rightarrow>
          Inr (Elem ''education-tab''
            (opt_child (renderSimplifiedTerms d) @ opt_child (renderLifestyleTips d)))
      | ResourcesTab \<Rightarrow>
          (case renderCostSavings d of
             Inl e \<Rightarrow> Inl e
           | Inr savings \<Rightarrow>
               Inr (Elem ''resources-tab''
                 (opt_child savings @ opt_child (renderSupportResources d)))))"

definition CarePlanDisplay :: "tab \<Rightarrow> care_plan_result \<Rightarrow> js_error + node" where
  "CarePlanDisplay activeTab d =
     (let header = care_plan_header d in
      case tab_content activeTab d of
        Inl e \<Rightarrow> Inl e
      | Inr content \<Rightarrow>
          Inr (Elem ''care-plan-container''
            [header,
             Elem ''tabs''
               [Elem ''tab'' [Text ''Overview''], Elem ''tab'' [Text ''Medications''],
                Elem ''tab'' [Text ''Action Plan''], Elem ''tab'' [Text ''Health Education''],
                Elem ''tab'' [Text ''Resources & Savings'']],
             Elem ''tab-content'' [content]]))"

subsection \<open>The tab composition of the design document\<close>

datatype plan_section =
    SecMedications
  | SecActionItems
  | SecLifestyleTips
  | SecFollowUp
  | SecEmergencyContacts
  | SecSimplifiedTerms
  | SecCostSavings
  | SecSupportResources

text \<open>The declared composition of each tab, in the declared order.\<close>

fun composition :: "tab \<Rightarrow> plan_section list" where
  "composition Overview = [SecMedications, SecActionItems, SecLifestyleTips]"
| "composition MedicationsTab = [SecMedications]"
| "composition ActionsTab = [SecActionItems, SecFollowUp, SecEmergencyContacts]"
| "composition EducationTab = [SecSimplifiedTerms, SecLifestyleTips]"
| "composition ResourcesTab = [SecCostSavings, SecSupportResources]"

text \<open>The number of entries of the collection behind a section, \<open>None\<close> when absent.\<close>

fun backing_length :: "plan_section \<Rightarrow> care_plan_result \<Rightarrow> nat option" where
  "backing_length SecMedications d = map_option length (Option.bind (care_plan d) medications)"
| "backing_length SecActionItems d = map_option length (Option.bind (care_plan d) action_items)"
| "backing_length SecLifestyleTips d = map_option length (Option.bind (care_plan d) lifestyle_tips)"
| "backing_length SecFollowUp d = map_option length (Option.bind (care_plan d) follow_up_instructions)"
| "backing_length SecEmergencyContacts d = map_option length (Option.bind (care_plan d) emergency_contacts)"
| "backing_length SecSimplifiedTerms d = map_option length (Option.bind (care_plan d) simplified_terms)"
| "backing_length SecCostSavings d = map_option length (Option.bind (resource_result_of d) cost_savings)"
| "backing_length SecSupportResources d = map_option length (Option.bind (resource_result_of d) support_resources)"

definition backing_empty :: "plan_section \<Rightarrow> care_plan_result \<Rightarrow> bool" where
  "backing_empty sec d = (backing_length sec d = None \<or> backing_length sec d = Some 0)"

text \<open>The function of CarePlanDisplay.jsx that renders a section.\<close>

fun renderSection :: "plan_section \<Rightarrow> care_plan_result \<Rightarrow> js_error + node option" where
  "renderSection SecMedications d = Inr (renderMedications d)"
| "renderSection SecActionItems d = Inr (renderActionItems d)"
| "renderSection SecLifestyleTips d = Inr (renderLifestyleTips d)"
| "renderSection SecFollowUp d = Inr (renderFollowUp d)"
| "renderSection SecEmergencyContacts d = Inr (renderEmergencyContacts d)"
| "renderSection SecSimplifiedTerms d = Inr (renderSimplifiedTerms d)"
| "renderSection SecCostSavings d = renderCostSavings d"
| "renderSection SecSupportResources d = Inr (renderSupportResources d)"

text \<open>
  The outputs of a list of sections laid out one after the other: a section that is
  \<^verbatim>\<open>null\<close> adds nothing, and the first one that throws ends the rendering.
\<close>

fun lay_out :: "(js_error + node option) list \<Rightarrow> js_error + node list" where
  "lay_out [] = Inr []"
| "lay_out (Inl e # rs) = Inl e"
| "lay_out (Inr v # rs) =
     (case lay_out rs of Inl e \<Rightarrow> Inl e | Inr ns \<Rightarrow> Inr (opt_child v @ ns))"

fun tab_class :: "tab \<Rightarrow> string" where
  "tab_class Overview = ''overview-tab''"
| "tab_class MedicationsTab = ''medications-tab''"
| "tab_class ActionsTab = ''actions-tab''"
| "tab_class EducationTab = ''education-tab''"
| "tab_class ResourcesTab = ''resources-tab''"

section \<open>Sample inputs and the page invariant\<close>

definition sample_jpg :: js_file where
  "sample_jpg = \<lparr> file_name = ''scan.jpg'', file_size = 2048, file_type = ''image/jpeg'' \<rparr>"

definition sample_png :: js_file where
  "sample_png = \<lparr> file_name = ''label.png'', file_size = 512, file_type = ''image/png'' \<rparr>"

definition sample_pdf :: js_file where
  "sample_pdf = \<lparr> file_name = ''notes.pdf'', file_size = 4096, file_type = ''application/pdf'' \<rparr>"

text \<open>A request that timed out: sent, never answered.\<close>

definition sample_timeout :: axios_error where
  "sample_timeout = \<lparr> err_response = None, err_request = True,
     err_message = Some ''timeout of 30000ms exceeded'' \<rparr>"

text \<open>A rejection with the body \<^verbatim>\<open>{ "detail": "File too large" }\<close>.\<close>

definition sample_too_large :: axios_error where
  "sample_too_large =
     \<lparr> err_response = Some \<lparr> response_data =
         Some \<lparr> body_message = None, body_detail = Some ''File too large'' \<rparr> \<rparr>,
       err_request = True, err_message = Some ''Request failed with status code 413'' \<rparr>"

text \<open>A rejection with an error status and no body.\<close>

definition sample_bare_500 :: axios_error where
  "sample_bare_500 =
     \<lparr> err_response = Some \<lparr> response_data = None \<rparr>,
       err_request = True, err_message = Some ''Request failed with status code 500'' \<rparr>"

text \<open>The page after a file was chosen and Analyze was clicked.\<close>

definition submitting_state :: app_state where
  "submitting_state = \<lparr> selectedFile = Some sample_jpg, isLoading = True, result = None,
     error = None, uploadProgress = 0, timers = [0], inflight = [0], nextTimer = 1 \<rparr>"

text \<open>The page after that request timed out.\<close>

definition failed_state :: app_state where
  "failed_state = \<lparr> selectedFile = Some sample_jpg, isLoading = False, result = None,
     error = Some ''Unable to connect to the server. Please check your connection.'',
     uploadProgress = 0, timers = [0], inflight = [], nextTimer = 1 \<rparr>"

text \<open>The payload of the scenario with one medication named Lisinopril.\<close>

definition lisinopril :: medication where
  "lisinopril = \<lparr> med_name = Some ''Lisinopril'', med_dosage = Some ''10 MG'',
     med_frequency = Some ''Once daily'', med_instructions = Some ''Take with water'',
     med_quantity = Some 30, med_refills = Some 12 \<rparr>"

definition sample_plan :: care_plan_result where
  "sample_plan =
     \<lparr> care_plan = Some
         \<lparr> medications = Some [lisinopril], action_items = Some [],
           simplified_terms = None, lifestyle_tips = Some [''Monitor blood pressure''],
           follow_up_instructions = None, emergency_contacts = Some [''Call 911''] \<rparr>,
       agent_results = None,
       confidence_score = Some (to_double (947 / 1000)),
       processing_time_seconds = Some (to_double (32 / 10)) \<rparr>"

text \<open>A payload whose only content is a list of cost-savings entries and their total.\<close>

definition payload_with_savings :: "rat option \<Rightarrow> cost_saving list \<Rightarrow> care_plan_result" where
  "payload_with_savings total_savings entries =
     \<lparr> care_plan = None,
       agent_results = Some \<lparr> resource = Some \<lparr> agent_result = Some
         \<lparr> cost_savings = Some entries, total_potential_savings = total_savings,
           support_resources = None \<rparr> \<rparr> \<rparr>,
       confidence_score = None, processing_time_seconds = None \<rparr>"

text \<open>A cost-savings entry that carries neither tips nor discount programs.\<close>

definition saving_without_lists :: cost_saving where
  "saving_without_lists = \<lparr> saving_medication = Some ''Lisinopril'', monthly_savings = Some 15,
     generic_available = Some False, generic_name = None,
     savings_tips = None, discount_programs = None \<rparr>"

text \<open>An entry whose generic flag is set and whose generic name is absent.\<close>

definition saving_without_name :: cost_saving where
  "saving_without_name = \<lparr> saving_medication = Some ''Lisinopril'', monthly_savings = Some 15,
     generic_available = Some True, generic_name = None,
     savings_tips = Some [''Ask for a 90-day supply''], discount_programs = Some [''GoodRx''] \<rparr>"

text \<open>A fully populated entry, and the card it is rendered to.\<close>

definition saving_with_name :: cost_saving where
  "saving_with_name = \<lparr> saving_medication = Some ''Zestril'', monthly_savings = Some 15,
     generic_available = Some True, generic_name = Some ''Lisinopril'',
     savings_tips = Some [''Ask for a 90-day supply''], discount_programs = Some [''GoodRx''] \<rparr>"

definition saving_with_name_card :: node where
  "saving_with_name_card =
     Elem ''savings-card''
       [Elem ''savings-header''
          [Elem ''h4'' [Text ''Zestril''],
           Elem ''savings-amount'' [Text ''Save $'', Num 15, Text ''/month'']],
        Elem ''savings-details''
          [Elem ''p'' [Elem ''strong'' [Text ''Generic Available:''], Text '' Yes - '', Text ''Lisinopril''],
           Elem ''savings-tips''
             [Elem ''h5'' [Text ''Money-Saving Tips:''],
              Elem ''ul'' [Elem ''li'' [Text ''Ask for a 90-day supply'']]],
           Elem ''discount-programs''
             [Elem ''h5'' [Text ''Discount Programs:''],
              Elem ''program-tags'' [Elem ''program-tag'' [Text ''GoodRx'']]]]]"

text \<open>
  The page after a file was chosen, Analyze was clicked, the file was removed while the
  request was pending, and the request timed out: an error is shown and no document
  is selected.
\<close>

definition failed_without_document :: app_state where
  "failed_without_document = \<lparr> selectedFile = None, isLoading = False, result = None,
     error = Some ''Unable to connect to the server. Please check your connection.'',
     uploadProgress = 0, timers = [0], inflight = [], nextTimer = 1 \<rparr>"

text \<open>
  A payload for the Resources tab with both of its collections non-empty: one
  cost-savings entry that carries neither tips nor discount programs, and one support
  resource.
\<close>

definition sample_resource :: support_resource where
  "sample_resource = \<lparr> resource_name = Some ''American Heart Association'',
     resource_description = Some ''Heart health information'',
     resource_url = Some ''https://www.heart.org'', resource_phone = None,
     resource_type = Some ''organization'' \<rparr>"

definition payload_partial_savings :: care_plan_result where
  "payload_partial_savings =
     \<lparr> care_plan = None,
       agent_results = Some \<lparr> resource = Some \<lparr> agent_result = Some
         \<lparr> cost_savings = Some [saving_without_lists], total_potential_savings = Some 180,
           support_resources = Some [sample_resource] \<rparr> \<rparr> \<rparr>,
       confidence_score = None, processing_time_seconds = None \<rparr>"

text \<open>Every cost-savings entry of the payload carries its tips and its discount programs.\<close>

definition entries_complete :: "care_plan_result \<Rightarrow> bool" where
  "entries_complete d =
     list_all (\<lambda>sv. savings_tips sv \<noteq> None \<and> discount_programs sv \<noteq> None)
       (case Option.bind (resource_result_of d) cost_savings of None \<Rightarrow> [] | Some es \<Rightarrow> es)"

text \<open>
  What holds of every page the user can reach: the spinner is shown exactly while a
  request is pending, at most one request is pending, nothing else is shown with
  the spinner, and an error that is set is a non-empty text shown without a result.
\<close>

definition page_inv :: "app_state \<Rightarrow> bool" where
  "page_inv s =
     ((isLoading s \<longleftrightarrow> inflight s \<noteq> []) \<and>
      length (inflight s) \<le> 1 \<and>
      (isLoading s \<longrightarrow> error s = None \<and> result s = None) \<and>
      (error s \<noteq> None \<longrightarrow> truthy_str (error s) \<and> result s = None))"

section \<open>Properties of the workflow controller\<close>

subsection \<open>The page invariant\<close>

lemma errorMessage_of_nonempty: "errorMessage_of err \<noteq> []"
  by (auto simp: errorMessage_of_def or_else_def Let_def split: option.splits)

lemma page_inv_initial: "page_inv initial"
  by (simp add: page_inv_def initial_def)

lemma remove1_short: "length xs \<le> 1 \<Longrightarrow> t \<in> set xs \<Longrightarrow> remove1 t xs = []"
  by (cases xs) auto

lemma page_inv_fire:
  assumes "page_inv s" and "fire g s = Some s'"
  shows "page_inv s'"
proof (cases g)
  case (ChangeFile files)
  with assms show ?thesis
    by (auto simp: page_inv_def handleFileSelect_def split: option.splits)
next
  case (DropFile files)
  with assms show ?thesis
    by (auto simp: page_inv_def handleFileSelect_def split: option.splits)
next
  case ClickAnalyze
  with assms show ?thesis
    by (auto simp: page_inv_def handleSubmit_def Let_def split: if_splits)
next
  case ClickTryAgain
  with assms show ?thesis
    by (auto simp: page_inv_def handleSubmit_def Let_def truthy_str_def
             split: if_splits option.splits)
next
  case ClickStartOver
  with assms show ?thesis
    by (auto simp: page_inv_def handleReset_def split: if_splits)
next
  case ClickProcessAnother
  with assms show ?thesis
    by (auto simp: page_inv_def handleReset_def split: if_splits)
next
  case ClickRemoveFile
  with assms show ?thesis
    by (auto simp: page_inv_def handleReset_def split: if_splits)
next
  case (Resolve t d)
  with assms show ?thesis
    by (auto simp: page_inv_def handleSubmit_resolved_def handleSubmit_finally_def remove1_short
             split: if_splits)
next
  case (Reject t e)
  with assms show ?thesis
    by (auto simp: page_inv_def handleSubmit_rejected_def handleSubmit_finally_def remove1_short
                   truthy_str_def errorMessage_of_nonempty
             split: if_splits)
next
  case (Tick t)
  with assms show ?thesis
    by (auto simp: page_inv_def tick_def split: if_splits)
qed

lemma reachable_page_inv: "reachable s \<Longrightarrow> page_inv s"
  by (induction rule: reachable.induct) (auto intro: page_inv_initial page_inv_fire)

lemma run_reachable: "reachable s \<Longrightarrow> run gs s = Some s' \<Longrightarrow> reachable s'"
  by (induction gs arbitrary: s) (auto split: option.splits intro: reachable_fire)

lemma run_submitting:
  "run [ChangeFile [sample_jpg], ClickAnalyze] initial = Some submitting_state"
  by (simp add: initial_def submitting_state_def handleFileChange_def handleFileSelect_def
        handleSubmit_def Let_def)

lemma reachable_submitting: "reachable submitting_state"
  using run_reachable [OF reachable_initial run_submitting] .

lemma fire_reject_submitting:
  "fire (Reject 0 sample_timeout) submitting_state = Some failed_state"
  by (simp add: submitting_state_def failed_state_def handleSubmit_rejected_def
        handleSubmit_finally_def errorMessage_of_def sample_timeout_def)

lemma reachable_failed: "reachable failed_state"
  using reachable_fire [OF reachable_submitting fire_reject_submitting] .

subsection \<open>Transitions\<close>

lemma transition_select:
  "spec_transition (workflowState s) SelectionChanged (workflowState (handleFileSelect f s)) \<or>
   extra_transition (workflowState s) SelectionChanged (workflowState (handleFileSelect f s))"
  by (auto simp: workflowState_def handleFileSelect_def spec_transition_def
        extra_transition_def truthy_str_def)

lemma transition_submit:
  assumes "page_inv s" and "\<not> isLoading s"
    and "ev = (if selectedFile s = None then SubmitNoDocument else SubmitWithDocument)"
    and "selectedFile s = None \<longrightarrow> truthy_str (error s)"
  shows "spec_transition (workflowState s) ev (workflowState (handleSubmit s)) \<or>
         extra_transition (workflowState s) ev (workflowState (handleSubmit s))"
  using assms
  by (auto simp: page_inv_def workflowState_def handleSubmit_def Let_def
        spec_transition_def extra_transition_def truthy_str_def split: if_splits)

lemma transition_reset:
  "spec_transition (workflowState s) ResetEvent (workflowState (handleReset s)) \<or>
   extra_transition (workflowState s) ResetEvent (workflowState (handleReset s))"
  by (auto simp: workflowState_def handleReset_def spec_transition_def
        extra_transition_def truthy_str_def)

lemma transition_resolved:
  assumes "page_inv s" and "t \<in> set (inflight s)"
  shows "spec_transition (workflowState s) ResponseSuccess
           (workflowState (handleSubmit_resolved t d s))"
  using assms
  by (auto simp: page_inv_def workflowState_def handleSubmit_resolved_def
        handleSubmit_finally_def spec_transition_def)

lemma transition_rejected:
  assumes "page_inv s" and "t \<in> set (inflight s)"
  shows "spec_transition (workflowState s) ResponseFailure
           (workflowState (handleSubmit_rejected t e s))"
  using assms
  by (auto simp: page_inv_def workflowState_def handleSubmit_rejected_def
        handleSubmit_finally_def spec_transition_def truthy_str_def errorMessage_of_nonempty)

lemma submit_inert_while_loading:
  assumes "reachable s" and "isLoading s"
  shows "fire ClickAnalyze s = None \<and> fire ClickTryAgain s = None"
  using reachable_page_inv [OF assms(1)] assms(2)
  by (simp add: page_inv_def truthy_str_def)

text \<open>
  Claim C1, as the page has it. Every transition that a gesture or a settlement causes
  on a reachable page is a row of the transition table of the design or one of five
  further rows: a new selection from DocumentSelected or Succeeded leads to
  DocumentSelected; a new selection while Submitting is accepted and leaves the page
  Submitting; a submission with a document from Succeeded leads to Submitting; a reset
  while Submitting leaves the page Submitting. No submission starts while Submitting.
\<close>

theorem page_transitions:
  assumes "reachable s" and "fire g s = Some s'" and "eventOf g s = Some ev"
  shows "(spec_transition (workflowState s) ev (workflowState s') \<or>
          extra_transition (workflowState s) ev (workflowState s')) \<and>
         (workflowState s = Submitting \<longrightarrow> ev \<noteq> SubmitNoDocument \<and> ev \<noteq> SubmitWithDocument)"
proof -
  have inv: "page_inv s" using assms(1) by (rule reachable_page_inv)
  have table: "spec_transition (workflowState s) ev (workflowState s') \<or>
          extra_transition (workflowState s) ev (workflowState s')"
  proof (cases g)
    case (ChangeFile files)
    with assms(2,3) transition_select [of s] show ?thesis
      by (auto split: option.splits)
  next
    case (DropFile files)
    with assms(2,3) transition_select [of s] show ?thesis
      by (auto split: option.splits)
  next
    case ClickAnalyze
    with assms(2,3) transition_submit [OF inv, of ev] show ?thesis
      by (auto split: if_splits)
  next
    case ClickTryAgain
    with assms(2,3) inv transition_submit [OF inv, of ev] show ?thesis
      by (auto simp: page_inv_def truthy_str_def split: if_splits)
  next
    case ClickStartOver
    with assms(2,3) transition_reset [of s] show ?thesis by (auto split: if_splits)
  next
    case ClickProcessAnother
    with assms(2,3) transition_reset [of s] show ?thesis by (auto split: if_splits)
  next
    case ClickRemoveFile
    with assms(2,3) transition_reset [of s] show ?thesis by (auto split: if_splits)
  next
    case (Resolve t d)
    with assms(2,3) transition_resolved [OF inv, of t d] show ?thesis
      by (auto split: if_splits)
  next
    case (Reject t e)
    with assms(2,3) transition_rejected [OF inv, of t e] show ?thesis
      by (auto split: if_splits)
  next
    case (Tick t)
    with assms(3) show ?thesis by simp
  qed
  moreover have "workflowState s = Submitting \<longrightarrow>
      ev \<noteq> SubmitNoDocument \<and> ev \<noteq> SubmitWithDocument"
    using table by (auto simp: spec_transition_def extra_transition_def)
  ultimately show ?thesis by blast
qed

theorem page_transitions_witness:
  "reachable submitting_state \<and>
   fire (DropFile [sample_png]) submitting_state
     = Some (submitting_state\<lparr> selectedFile := Some sample_png \<rparr>) \<and>
   eventOf (DropFile [sample_png]) submitting_state = Some SelectionChanged \<and>
   extra_transition (workflowState submitting_state) SelectionChanged
     (workflowState (submitting_state\<lparr> selectedFile := Some sample_png \<rparr>))"
proof -
  have f: "fire (DropFile [sample_png]) submitting_state
     = Some (submitting_state\<lparr> selectedFile := Some sample_png \<rparr>)"
    by (simp add: submitting_state_def handleDrop_def handleFileSelect_def sample_png_def)
  have e: "eventOf (DropFile [sample_png]) submitting_state = Some SelectionChanged"
    by (simp add: handleDrop_def sample_png_def)
  from page_transitions [OF reachable_submitting f e] reachable_submitting f e
  show ?thesis by (simp add: workflowState_def submitting_state_def spec_transition_def)
qed

text \<open>
  Claim C1, as it is worded, fails: with a request pending, dropping an image on the
  upload area is accepted. The page is Submitting before and after, the selected file
  has changed, and the table has no such row.
\<close>

theorem selection_while_submitting:
  "run [ChangeFile [sample_jpg], ClickAnalyze] initial = Some submitting_state \<and>
   workflowState submitting_state = Submitting \<and>
   eventOf (DropFile [sample_png]) submitting_state = Some SelectionChanged \<and>
   fire (DropFile [sample_png]) submitting_state
     = Some (submitting_state\<lparr> selectedFile := Some sample_png \<rparr>) \<and>
   workflowState (submitting_state\<lparr> selectedFile := Some sample_png \<rparr>) = Submitting \<and>
   \<not> spec_transition Submitting SelectionChanged Submitting"
  by (simp add: initial_def submitting_state_def handleFileChange_def handleFileSelect_def
        handleSubmit_def Let_def handleDrop_def sample_png_def workflowState_def
        spec_transition_def)

subsection \<open>The progress ticker\<close>

lemma resolved_clears_ticker: "t \<notin> set (timers (handleSubmit_resolved t d s))"
  by (simp add: handleSubmit_resolved_def handleSubmit_finally_def)

text \<open>
  Claim C3 at a failing request. A file is chosen, Analyze is clicked and the request
  times out. The page has left Submitting and no request is pending, yet the interval
  of that submission is still registered, and its next firing moves the progress
  value from 0 to 10.
\<close>

theorem ticker_outlives_failure:
  "run [ChangeFile [sample_jpg], ClickAnalyze, Reject 0 sample_timeout] initial
     = Some failed_state \<and>
   isLoading failed_state = False \<and> inflight failed_state = [] \<and>
   timers failed_state = [0] \<and>
   fire (Tick 0) failed_state = Some (failed_state\<lparr> uploadProgress := 10 \<rparr>)"
  by (simp add: initial_def failed_state_def handleFileChange_def handleFileSelect_def
        handleSubmit_def Let_def handleSubmit_rejected_def handleSubmit_finally_def
        errorMessage_of_def sample_timeout_def tick_def)

subsection \<open>Failure messages\<close>

text \<open>
  Claim C4, as the code has it. The message is the one the worded classification gives,
  except when a response arrived whose body has neither a message nor a detail: then
  the message is the fixed fallback, and the failure's own message is not used.
\<close>

theorem error_message_classification:
  "errorMessage_of err =
     (if err_response err \<noteq> None \<and>
         \<not> truthy_str (Option.bind (Option.bind (err_response err) response_data) body_message) \<and>
         \<not> truthy_str (Option.bind (Option.bind (err_response err) response_data) body_detail)
      then ''An error occurred. Please try again.''
      else classify_spec err)"
  by (auto simp: errorMessage_of_def classify_spec_def or_else_def truthy_str_def Let_def
      split: option.splits)

theorem error_message_classification_witness:
  "errorMessage_of sample_too_large = ''File too large'' \<and>
   errorMessage_of sample_timeout
     = ''Unable to connect to the server. Please check your connection.'' \<and>
   errorMessage_of sample_bare_500 = ''An error occurred. Please try again.''"
  using error_message_classification [of sample_too_large]
    error_message_classification [of sample_timeout]
    error_message_classification [of sample_bare_500]
  by (simp add: classify_spec_def sample_too_large_def sample_timeout_def sample_bare_500_def
        or_else_def truthy_str_def Let_def)

text \<open>
  Claim C4, as it is worded, fails at a rejection with an error status and no body:
  the third rule of the wording gives the failure's own message, the code gives the
  fallback.
\<close>

theorem bare_response_counterexample:
  "classify_spec sample_bare_500 = ''Request failed with status code 500'' \<and>
   errorMessage_of sample_bare_500 = ''An error occurred. Please try again.''"
  by (simp add: classify_spec_def errorMessage_of_def sample_bare_500_def or_else_def
        truthy_str_def Let_def)

subsection \<open>Submitting without a document\<close>

text \<open>
  What the page shows after a submission without a document: the error card, unless
  the spinner or a result is shown.
\<close>

lemma no_document_workflow:
  "selectedFile s = None \<Longrightarrow>
     workflowState (handleSubmit s) = (if workflowState s = Idle then Failed else workflowState s)"
  by (simp add: handleSubmit_def workflowState_def truthy_str_def)

text \<open>
  On a reachable page a submission without a document can only come from the Try Again
  button of the error card, and the page is Failed then.
\<close>

lemma no_document_submit_reachable:
  assumes "reachable s" and "fire g s = Some s'" and "eventOf g s = Some SubmitNoDocument"
  shows "selectedFile s = None \<and> s' = handleSubmit s \<and> workflowState s = Failed"
proof -
  have inv: "page_inv s" using assms(1) by (rule reachable_page_inv)
  from assms(3) have g: "g = ClickAnalyze \<or> g = ClickTryAgain"
    by (cases g) (auto split: option.splits if_splits)
  from assms(3) g have nofile: "selectedFile s = None"
    by (auto split: if_splits)
  from g assms(2) nofile have "g = ClickTryAgain" by auto
  with assms(2) have shown: "truthy_str (error s)" and s': "s' = handleSubmit s"
    by (auto split: if_splits)
  from shown have "error s \<noteq> None" by (auto simp: truthy_str_def split: option.splits)
  with inv shown have "workflowState s = Failed"
    by (auto simp: page_inv_def workflowState_def)
  with nofile s' show ?thesis by simp
qed

lemma reachable_failed_without_document: "reachable failed_without_document"
proof -
  have "run [ChangeFile [sample_jpg], ClickAnalyze, ClickRemoveFile, Reject 0 sample_timeout]
          initial = Some failed_without_document"
    by (simp add: initial_def failed_without_document_def handleFileChange_def
          handleFileSelect_def handleSubmit_def Let_def handleReset_def
          handleSubmit_rejected_def handleSubmit_finally_def errorMessage_of_def
          sample_timeout_def)
  with reachable_initial show ?thesis by (rule run_reachable)
qed

text \<open>
  Claim C5, as the code has it. When no document is selected, \<open>handleSubmit\<close> sets
  the error to ``Please select a file first.'' and changes no other cell of the state:
  no request and no interval is started, and the loading flag is as before. The
  workflow state of the page is as before when it was Submitting, Succeeded or Failed;
  an Idle page becomes Failed. On a reachable page the submission can only be fired
  from a Failed page, which stays Failed.
\<close>

theorem submit_without_document:
  "selectedFile s = None \<Longrightarrow>
     handleSubmit s = s\<lparr> error := Some ''Please select a file first.'' \<rparr> \<and>
     inflight (handleSubmit s) = inflight s \<and>
     timers (handleSubmit s) = timers s \<and>
     isLoading (handleSubmit s) = isLoading s \<and>
     workflowState (handleSubmit s)
       = (if workflowState s = Idle then Failed else workflowState s) \<and>
     (reachable s \<longrightarrow> fire g s = Some s' \<longrightarrow> eventOf g s = Some SubmitNoDocument \<longrightarrow>
        s' = handleSubmit s \<and> workflowState s = Failed \<and> workflowState s' = Failed)"
proof -
  assume nofile: "selectedFile s = None"
  have cells: "handleSubmit s = s\<lparr> error := Some ''Please select a file first.'' \<rparr> \<and>
     inflight (handleSubmit s) = inflight s \<and>
     timers (handleSubmit s) = timers s \<and>
     isLoading (handleSubmit s) = isLoading s"
    using nofile by (simp add: handleSubmit_def)
  have shown: "workflowState (handleSubmit s)
       = (if workflowState s = Idle then Failed else workflowState s)"
    using nofile by (rule no_document_workflow)
  have "s' = handleSubmit s \<and> workflowState s = Failed \<and> workflowState s' = Failed"
    if "reachable s" and "fire g s = Some s'" and "eventOf g s = Some SubmitNoDocument"
    using no_document_submit_reachable [OF that] shown by simp
  with cells shown show ?thesis by blast
qed

theorem submit_without_document_witness:
  "reachable failed_without_document \<and>
   selectedFile failed_without_document = None \<and>
   eventOf ClickTryAgain failed_without_document = Some SubmitNoDocument \<and>
   fire ClickTryAgain failed_without_document
     = Some (failed_without_document\<lparr> error := Some ''Please select a file first.'' \<rparr>) \<and>
   workflowState failed_without_document = Failed \<and>
   workflowState (failed_without_document\<lparr> error := Some ''Please select a file first.'' \<rparr>)
     = Failed \<and>
   inflight (handleSubmit failed_without_document) = []"
proof -
  have h: "selectedFile failed_without_document = None"
    by (simp add: failed_without_document_def)
  have e: "eventOf ClickTryAgain failed_without_document = Some SubmitNoDocument"
    using h by simp
  have f: "fire ClickTryAgain failed_without_document
     = Some (handleSubmit failed_without_document)"
    by (simp add: failed_without_document_def truthy_str_def)
  note t = submit_without_document
    [OF h, of ClickTryAgain "handleSubmit failed_without_document"]
  from t have a: "handleSubmit failed_without_document
     = failed_without_document\<lparr> error := Some ''Please select a file first.'' \<rparr>"
    by blast
  from t reachable_failed_without_document f e
  have b: "workflowState failed_without_document = Failed \<and>
     workflowState (handleSubmit failed_without_document) = Failed"
    by blast
  from t have d: "inflight (handleSubmit failed_without_document)
     = inflight failed_without_document"
    by blast
  have i: "inflight failed_without_document = []"
    by (simp add: failed_without_document_def)
  from reachable_failed_without_document h e f a b d i show ?thesis by simp
qed

text \<open>
  Claim C5, as it is worded, fails on the page that has nothing selected and nothing
  shown: the submission moves it from Idle to Failed.
\<close>

theorem submit_from_idle_counterexample:
  "selectedFile initial = None \<and>
   workflowState initial = Idle \<and>
   workflowState (handleSubmit initial) = Failed"
  by (simp add: initial_def handleSubmit_def workflowState_def truthy_str_def)

subsection \<open>Selecting a file\<close>

text \<open>
  Claim C8. A drop hands a file to \<open>onFileSelect\<close> exactly when the list has a
  first file whose type starts with \<open>image/\<close>; the page then holds that file, and
  otherwise the page is as before. A change of the file input hands over the first
  file of the list whatever its type.
\<close>

theorem selection_gestures:
  "(handleDrop files = Some f \<longleftrightarrow>
      (\<exists>rest. files = f # rest) \<and> prefix ''image/'' (file_type f)) \<and>
   (handleFileChange files = Some f \<longleftrightarrow> (\<exists>rest. files = f # rest)) \<and>
   (handleDrop files = Some f \<longrightarrow>
      fire (DropFile files) s
        = Some (s\<lparr> selectedFile := Some f, error := None, result := None \<rparr>)) \<and>
   (handleDrop files = None \<longrightarrow> fire (DropFile files) s = Some s) \<and>
   (handleFileChange files = Some f \<longrightarrow>
      fire (ChangeFile files) s
        = Some (s\<lparr> selectedFile := Some f, error := None, result := None \<rparr>)) \<and>
   (handleFileChange files = None \<longrightarrow> fire (ChangeFile files) s = Some s)"
  by (auto simp: handleDrop_def handleFileChange_def handleFileSelect_def split: list.splits)

theorem selection_gestures_witness:
  "handleDrop [sample_jpg] = Some sample_jpg \<and>
   fire (DropFile [sample_jpg]) initial
     = Some (initial\<lparr> selectedFile := Some sample_jpg, error := None, result := None \<rparr>) \<and>
   handleDrop [sample_pdf] = None \<and>
   fire (DropFile [sample_pdf]) failed_state = Some failed_state \<and>
   handleFileChange [sample_pdf] = Some sample_pdf \<and>
   fire (ChangeFile [sample_pdf]) initial
     = Some (initial\<lparr> selectedFile := Some sample_pdf, error := None, result := None \<rparr>)"
proof -
  have a: "prefix ''image/'' (file_type sample_jpg)" by (simp add: sample_jpg_def)
  have b: "\<not> prefix ''image/'' (file_type sample_pdf)" by (simp add: sample_pdf_def)
  from a b selection_gestures [of "[sample_jpg]" sample_jpg initial]
    selection_gestures [of "[sample_pdf]" sample_pdf failed_state]
    selection_gestures [of "[sample_pdf]" sample_pdf initial]
  show ?thesis by (simp add: handleDrop_def)
qed

subsection \<open>Result and error\<close>

text \<open>
  Claim C10. On every page that the user can reach, a result and an error are not
  both set.
\<close>

theorem result_error_exclusive:
  "reachable s \<Longrightarrow> \<not> (result s \<noteq> None \<and> error s \<noteq> None)"
  using reachable_page_inv [of s] by (auto simp: page_inv_def)

theorem result_error_exclusive_witness:
  "reachable failed_state \<and> error failed_state \<noteq> None \<and> result failed_state = None"
  using result_error_exclusive [OF reachable_failed] reachable_failed
  by (simp add: failed_state_def)

section \<open>Properties of the care-plan display\<close>

subsection \<open>Evaluating numbers\<close>

lemma floor_rat_numeral_div:
  "\<lfloor>numeral a / numeral b :: rat\<rfloor> = numeral a div numeral b"
  using floor_divide_of_int_eq [of "numeral a" "numeral b", where ?'a = rat] by simp

lemma ceiling_rat_numeral_div:
  "\<lceil>numeral a / numeral b :: rat\<rceil> = - (- numeral a div numeral b)"
proof -
  have "\<lceil>numeral a / numeral b :: rat\<rceil> = - \<lfloor>of_int (- numeral a) / of_int (numeral b) :: rat\<rfloor>"
    by (simp add: ceiling_def)
  also have "\<dots> = - (- numeral a div numeral b)"
    by (simp only: floor_divide_of_int_eq)
  finally show ?thesis .
qed

lemmas number_eval = binade_def pow2_def round_half_even_def Let_def
  floor_rat_numeral_div ceiling_rat_numeral_div

lemma double_0947: "to_double (947 / 1000) = 8529817694239719 / 9007199254740992"
  unfolding to_double_def Let_def by (simp add: number_eval)

lemma times_100: "js_times (8529817694239719 / 9007199254740992) 100 = 1665980018406195 / 17592186044416"
  unfolding js_times_def to_double_def Let_def by (simp add: number_eval)

lemma round_confidence: "Math_round (js_times (to_double (947 / 1000)) 100) = 95"
  unfolding double_0947 times_100 by (simp add: Math_round_def floor_rat_numeral_div)

lemma double_32: "to_double (32 / 10) = 3602879701896397 / 1125899906842624"
  unfolding to_double_def Let_def by (simp add: number_eval)

lemma double_1234: "to_double (1234 / 10) = 4341751515761869 / 35184372088832"
  unfolding to_double_def Let_def by (simp add: number_eval)

lemma fixed_32: "toFixed (to_double (32 / 10)) 1 = Text ''3.2''"
  unfolding double_32 toFixed_def Let_def by (simp add: floor_rat_numeral_div)

lemma fixed_1234: "toFixed (to_double (1234 / 10)) 2 = Text ''123.40''"
  unfolding double_1234 toFixed_def Let_def by (simp add: floor_rat_numeral_div)

lemma int_child_95: "int_child 95 = Text ''95''"
  by (simp add: int_child_def)

subsection \<open>Sections that can throw\<close>

lemma mapE_total:
  "\<forall>x \<in> set xs. \<exists>y. f x = Inr y \<Longrightarrow> \<exists>ys. mapE f xs = Inr ys"
  by (induction xs) (fastforce split: sum.splits)+

text \<open>
  The cost-savings section returns when every entry carries both of its lists; the other
  seven sections have no call that can throw.
\<close>

lemma cost_savings_total:
  assumes "\<And>sv entries. Option.bind (resource_result_of d) cost_savings = Some entries \<Longrightarrow>
             sv \<in> set entries \<Longrightarrow> savings_tips sv \<noteq> None \<and> discount_programs sv \<noteq> None"
  shows "\<exists>r. renderCostSavings d = Inr r"
proof (cases "Option.bind (resource_result_of d) cost_savings")
  case None
  then show ?thesis by (simp add: renderCostSavings_def)
next
  case (Some entries)
  have "\<exists>y. savings_card x = Inr y" if "x \<in> set entries" for x
  proof -
    from assms [OF Some that] obtain tips programs
      where "savings_tips x = Some tips" and "discount_programs x = Some programs"
      by auto
    then show ?thesis by (simp add: savings_card_def)
  qed
  then have "\<exists>ys. mapE savings_card entries = Inr ys"
    by (intro mapE_total) blast
  with Some show ?thesis by (auto simp: renderCostSavings_def Let_def)
qed

text \<open>
  Claim C2 at a partially populated entry. The payload has one cost-savings entry
  without \<open>savings_tips\<close> and \<open>discount_programs\<close>; the section, and with it
  the Resources tab of the display, throws a TypeError.
\<close>

theorem cost_savings_throws:
  "renderCostSavings (payload_with_savings (Some 180) [saving_without_lists]) = Inl TypeError \<and>
   CarePlanDisplay ResourcesTab (payload_with_savings (Some 180) [saving_without_lists])
     = Inl TypeError"
  by (simp add: renderCostSavings_def CarePlanDisplay_def tab_content_def payload_with_savings_def
        resource_result_of_def savings_card_def saving_without_lists_def Let_def)

subsection \<open>Tabs\<close>

text \<open>
  The content of a tab is the outputs of the sections of its declared composition, laid
  out in the declared order.
\<close>

lemma tab_content_lay_out:
  "tab_content t d =
     (case lay_out (map (\<lambda>sec. renderSection sec d) (composition t)) of
        Inl e \<Rightarrow> Inl e
      | Inr ns \<Rightarrow> Inr (Elem (tab_class t) ns))"
  by (cases t) (simp_all add: tab_content_def split: sum.splits)

text \<open>
  A section whose collection is absent or empty is \<^verbatim>\<open>null\<close>: it adds nothing and
  does not throw.
\<close>

lemma empty_section_null: "backing_empty sec d \<Longrightarrow> renderSection sec d = Inr None"
  by (cases sec)
     (auto simp: backing_empty_def renderMedications_def renderActionItems_def
        renderLifestyleTips_def renderFollowUp_def renderEmergencyContacts_def
        renderSimplifiedTerms_def renderCostSavings_def renderSupportResources_def
        split: option.splits)

text \<open>
  A section whose collection has an entry is rendered, provided that every cost-savings
  entry carries both of its lists.
\<close>

lemma complete_cost_savings_returns:
  assumes "entries_complete d"
  shows "\<exists>r. renderCostSavings d = Inr r"
proof (rule cost_savings_total)
  fix sv entries
  assume "Option.bind (resource_result_of d) cost_savings = Some entries" and "sv \<in> set entries"
  with assms show "savings_tips sv \<noteq> None \<and> discount_programs sv \<noteq> None"
    by (simp add: entries_complete_def list_all_iff)
qed

lemma nonempty_section_rendered:
  assumes "\<not> backing_empty sec d" and "entries_complete d"
  shows "\<exists>n. renderSection sec d = Inr (Some n)"
proof (cases sec)
  case SecCostSavings
  from complete_cost_savings_returns [OF assms(2)] obtain r
    where r: "renderCostSavings d = Inr r" by blast
  from assms(1) SecCostSavings r have "r \<noteq> None"
    by (auto simp: backing_empty_def renderCostSavings_def Let_def
          split: option.splits sum.splits if_splits)
  with r SecCostSavings show ?thesis by auto
qed (use assms(1) in \<open>auto simp: backing_empty_def renderMedications_def renderActionItems_def
        renderLifestyleTips_def renderFollowUp_def renderEmergencyContacts_def
        renderSimplifiedTerms_def renderSupportResources_def split: option.splits\<close>)

text \<open>The Overview tab of the payload with one medication named Lisinopril.\<close>

lemma overview_of_sample_plan:
  "tab_content Overview sample_plan =
     Inr (Elem ''overview-tab''
       [Elem ''medications-section''
          [Elem ''h3'' [Text ''Your Medications''], medication_card lisinopril],
        Elem ''lifestyle-section''
          [Elem ''h3'' [Text ''Lifestyle Tips''],
           Elem ''tips-list'' [Elem ''tip-item'' [Text ''Monitor blood pressure'']]]])"
  by (simp add: tab_content_def renderMedications_def renderActionItems_def
        renderLifestyleTips_def sample_plan_def opt_child_def)

text \<open>
  Claim C6 at a partially populated entry. The Resources tab is declared as the
  cost-savings section followed by the support-resources section. In this payload the
  collections of both are non-empty, yet the tab renders neither: the cost-savings
  section throws a TypeError on the entry without its lists, and the support-resources
  section, which on its own renders, is lost with it.
\<close>

theorem resources_tab_throws:
  "composition ResourcesTab = [SecCostSavings, SecSupportResources] \<and>
   backing_length SecCostSavings payload_partial_savings = Some 1 \<and>
   backing_length SecSupportResources payload_partial_savings = Some 1 \<and>
   renderSupportResources payload_partial_savings =
     Some (Elem ''support-resources-section''
       [Elem ''h3'' [Text ''Support Resources''],
        Elem ''resources-grid'' [resource_card sample_resource]]) \<and>
   tab_content ResourcesTab payload_partial_savings = Inl TypeError"
  by (simp add: payload_partial_savings_def resource_result_of_def tab_content_def
        renderCostSavings_def renderSupportResources_def savings_card_def
        saving_without_lists_def Let_def)

subsection \<open>The generic line of a savings card\<close>

text \<open>
  Claim C7, as the code has it. The line is rendered exactly when the flag is true. It
  ends with the generic name when the name is present and with ``Yes - '' when it is
  absent. A card that renders has the line first among its details.
\<close>

theorem generic_line_shown:
  "(generic_line saving \<noteq> [] \<longleftrightarrow> generic_available saving = Some True) \<and>
   (generic_available saving = Some True \<longrightarrow>
      generic_line saving =
        [Elem ''p'' ([Elem ''strong'' [Text ''Generic Available:''], Text '' Yes - '']
           @ (case generic_name saving of None \<Rightarrow> [] | Some n \<Rightarrow> [Text n]))]) \<and>
   (savings_card saving = Inr shown \<longrightarrow>
      (\<exists>header rest. shown = Elem ''savings-card''
          [header, Elem ''savings-details'' (generic_line saving @ rest)]))"
  by (auto simp: generic_line_def bool_and_def str_child_def savings_card_def
      split: option.splits)

theorem generic_line_shown_witness:
  "generic_available saving_with_name = Some True \<and>
   generic_line saving_with_name =
     [Elem ''p'' [Elem ''strong'' [Text ''Generic Available:''], Text '' Yes - '', Text ''Lisinopril'']] \<and>
   generic_line saving_without_lists = []"
proof -
  have a: "generic_available saving_with_name = Some True"
    by (simp add: saving_with_name_def)
  have b: "generic_available saving_without_lists \<noteq> Some True"
    by (simp add: saving_without_lists_def)
  from generic_line_shown [of saving_with_name] generic_line_shown [of saving_without_lists] a b
  show ?thesis by (simp add: saving_with_name_def)
qed

text \<open>
  Claim C7, as it is worded, fails: with the flag true and the name absent the line is
  rendered.
\<close>

theorem generic_line_without_name:
  "generic_available saving_without_name = Some True \<and>
   generic_name saving_without_name = None \<and>
   generic_line saving_without_name =
     [Elem ''p'' [Elem ''strong'' [Text ''Generic Available:''], Text '' Yes - '']]"
  by (simp add: saving_without_name_def generic_line_def bool_and_def str_child_def)

subsection \<open>Formats\<close>

text \<open>
  Claim C9. The double nearest to 0.947 is shown as ``Confidence: 95%'', the double
  nearest to 3.2 as ``Processed in 3.2s'', and a total that is the double nearest to
  123.4 as ``Potential Annual Savings: $123.40''.
\<close>

theorem display_formats:
  "confidence_score_span (d\<lparr> confidence_score := Some (to_double (947 / 1000)) \<rparr>)
     = Elem ''confidence-score'' [Text ''Confidence: '', Text ''95'', Text ''%''] \<and>
   processing_time_span (d\<lparr> processing_time_seconds := Some (to_double (32 / 10)) \<rparr>)
     = Elem ''processing-time'' [Text ''Processed in '', Text ''3.2'', Text ''s''] \<and>
   renderCostSavings (payload_with_savings (Some (to_double (1234 / 10))) [saving_with_name])
     = Inr (Some (Elem ''cost-savings-section''
         [Elem ''h3'' [Text ''Cost Savings Opportunities''],
          Elem ''savings-summary''
            [Elem ''savings-total''
               [Elem ''h4'' [Text ''Potential Annual Savings: $'', Text ''123.40'']]],
          saving_with_name_card]))"
proof -
  have "confidence_score_span (d\<lparr> confidence_score := Some (to_double (947 / 1000)) \<rparr>)
     = Elem ''confidence-score'' [Text ''Confidence: '', Text ''95'', Text ''%'']"
    using round_confidence by (simp add: confidence_score_span_def or_zero_def int_child_95)
  moreover have "processing_time_span (d\<lparr> processing_time_seconds := Some (to_double (32 / 10)) \<rparr>)
     = Elem ''processing-time'' [Text ''Processed in '', Text ''3.2'', Text ''s'']"
    using fixed_32 by (simp add: processing_time_span_def)
  moreover have "savings_card saving_with_name = Inr saving_with_name_card"
    by (simp add: savings_card_def saving_with_name_def saving_with_name_card_def
          generic_line_def bool_and_def str_child_def num_child_def)
  with fixed_1234 have "renderCostSavings (payload_with_savings (Some (to_double (1234 / 10))) [saving_with_name])
     = Inr (Some (Elem ''cost-savings-section''
         [Elem ''h3'' [Text ''Cost Savings Opportunities''],
          Elem ''savings-summary''
            [Elem ''savings-total''
               [Elem ''h4'' [Text ''Potential Annual Savings: $'', Text ''123.40'']]],
          saving_with_name_card]))"
    by (simp add: renderCostSavings_def payload_with_savings_def resource_result_of_def
          or_zero_def Let_def)
  ultimately show ?thesis by blast
qed

end
